theory Spec2Isabelle
  imports Main "HOL-Library.Sublist"
begin

section \<open>JavaScript values, strings and objects\<close>

text \<open>
  The values script.js handles: cells of a decoded sheet, fields of a record returned by
  an endpoint. Numbers are modelled as integers (cells holding whole numbers, which
  \<^verbatim>\<open>String\<close> prints in plain decimal).
\<close>

datatype jsval = JUndefined | JNull | JBool bool | JNum int | JStr string

text \<open>Truthiness, as \<^verbatim>\<open>!x\<close>, \<^verbatim>\<open>x || y\<close> and \<^verbatim>\<open>x ? a : b\<close> read it.\<close>

fun truthy :: "jsval \<Rightarrow> bool" where
  "truthy JUndefined = False"
| "truthy JNull = False"
| "truthy (JBool b) = b"
| "truthy (JNum n) = (n \<noteq> 0)"
| "truthy (JStr s) = (s \<noteq> [])"

definition js_or :: "jsval \<Rightarrow> jsval \<Rightarrow> jsval" where
  "js_or a b = (if truthy a then a else b)"

text \<open>\<^verbatim>\<open>a || b\<close> on two strings.\<close>

definition str_or :: "string \<Rightarrow> string \<Rightarrow> string" where
  "str_or a b = (if a \<noteq> [] then a else b)"

fun digits :: "nat \<Rightarrow> string" where
  "digits n =
     (if n < 10 then [''0123456789'' ! n]
      else digits (n div 10) @ [''0123456789'' ! (n mod 10)])"

declare digits.simps [simp del]

text \<open>\<^verbatim>\<open>String(v)\<close>.\<close>

fun js_String :: "jsval \<Rightarrow> string" where
  "js_String JUndefined = ''undefined''"
| "js_String JNull = ''null''"
| "js_String (JBool b) = (if b then ''true'' else ''false'')"
| "js_String (JNum n) = (if n < 0 then CHR ''-'' # digits (nat (- n)) else digits (nat n))"
| "js_String (JStr s) = s"

text \<open>\<^verbatim>\<open>s.toLowerCase()\<close>, on the ASCII letters.\<close>

definition lowerChar :: "char \<Rightarrow> char" where
  "lowerChar c =
     (case map_of (zip ''ABCDEFGHIJKLMNOPQRSTUVWXYZ'' ''abcdefghijklmnopqrstuvwxyz'') c of
        None \<Rightarrow> c
      | Some d \<Rightarrow> d)"

definition toLowerCase :: "string \<Rightarrow> string" where
  "toLowerCase s = map lowerChar s"

text \<open>\<^verbatim>\<open>s.includes(t)\<close>: \<open>t\<close> occurs in \<open>s\<close> as a contiguous run.\<close>

fun str_includes :: "string \<Rightarrow> string \<Rightarrow> bool" where
  "str_includes [] t = (t = [])"
| "str_includes (c # cs) t = (prefix t (c # cs) \<or> str_includes cs t)"

text \<open>\<^verbatim>\<open>s.endsWith(t)\<close>.\<close>

definition endsWith :: "string \<Rightarrow> string \<Rightarrow> bool" where
  "endsWith s t = suffix t s"

text \<open>\<^verbatim>\<open>s.split(sep)\<close> for a one-character separator.\<close>

fun js_split :: "char \<Rightarrow> string \<Rightarrow> string list" where
  "js_split sep [] = [[]]"
| "js_split sep (c # cs) =
     (if c = sep then [] # js_split sep cs
      else (case js_split sep cs of
              [] \<Rightarrow> [[c]]
            | w # ws \<Rightarrow> (c # w) # ws))"

text \<open>\<^verbatim>\<open>s.replace(/c/g, r)\<close> for a one-character pattern.\<close>

definition replaceAll :: "char \<Rightarrow> string \<Rightarrow> string \<Rightarrow> string" where
  "replaceAll c r s = concat (map (\<lambda>x. if x = c then r else [x]) s)"

text \<open>\<^verbatim>\<open>xs.join(sep)\<close>.\<close>

fun join :: "string \<Rightarrow> string list \<Rightarrow> string" where
  "join sep [] = []"
| "join sep [x] = x"
| "join sep (x # y # ys) = x @ sep @ join sep (y # ys)"

text \<open>
  An object is the list of its own properties in the order \<^verbatim>\<open>Object.keys\<close> lists
  them. Reading a property that is not there gives \<^verbatim>\<open>undefined\<close>.
\<close>

type_synonym jsobj = "(string \<times> jsval) list"

definition keys :: "jsobj \<Rightarrow> string list" where
  "keys row = map fst row"

definition obj_get :: "jsobj \<Rightarrow> string \<Rightarrow> jsval" where
  "obj_get row k = (case map_of row k of None \<Rightarrow> JUndefined | Some v \<Rightarrow> v)"

section \<open>Local search: decoding, filtering and mapping rows\<close>

record criteria =
  name :: string
  location :: string
  technology :: string

datatype error = FileReadError | XlsxError | HttpError nat | NetworkError

text \<open>
  The sheet library (SheetJS) is not part of script.js: \<^verbatim>\<open>XLSX.read\<close> and
  \<^verbatim>\<open>XLSX.utils.sheet_to_json\<close> are parameters. A workbook is its \<^verbatim>\<open>SheetNames\<close>
  and \<^verbatim>\<open>Sheets\<close>; \<open>sheet_to_json\<close> takes the worksheet (\<open>None\<close> when
  \<^verbatim>\<open>workbook.Sheets[...]\<close> is undefined) and the \<^verbatim>\<open>defval\<close> option.
\<close>

datatype 'ws workbook = Workbook (SheetNames: "string list") (Sheets: "(string \<times> 'ws) list")

record 'ws xlsx =
  xlsx_read :: "string \<Rightarrow> error + 'ws workbook"
  sheet_to_json :: "'ws option \<Rightarrow> jsval \<Rightarrow> error + jsobj list"

text \<open>\<^verbatim>\<open>base64Data.split(',')[1] || base64Data\<close>\<close>

definition cleanBase64 :: "string \<Rightarrow> string" where
  "cleanBase64 base64Data =
     (case js_split CHR '','' base64Data of
        _ # p # _ \<Rightarrow> str_or p base64Data
      | _ \<Rightarrow> base64Data)"

text \<open>The filter's \<^verbatim>\<open>getValue\<close> (script.js 501-504).\<close>

definition getValue :: "jsobj \<Rightarrow> string \<Rightarrow> string" where
  "getValue row keyPrefix =
     (case find (\<lambda>k. str_includes (toLowerCase k) keyPrefix) (keys row) of
        None \<Rightarrow> []
      | Some key \<Rightarrow> if key \<noteq> [] then toLowerCase (js_String (obj_get row key)) else [])"

text \<open>The predicate handed to \<^verbatim>\<open>jsonData.filter\<close> (script.js 499-524).\<close>

definition rowMatches :: "criteria \<Rightarrow> jsobj \<Rightarrow> bool" where
  "rowMatches crit row =
     (let rowName = getValue row ''name'';
          rowLocation = getValue row ''location'';
          rowTech = str_or (getValue row ''tech'') (getValue row ''skill'');
          searchName = toLowerCase (str_or (name crit) []);
          searchLocation = toLowerCase (str_or (location crit) []);
          searchTech = toLowerCase (str_or (technology crit) []);
          matchName = (searchName = [] \<or> str_includes rowName searchName);
          matchLocation = (searchLocation = [] \<or> str_includes rowLocation searchLocation);
          matchTech = (searchTech = [] \<or> str_includes rowTech searchTech)
      in matchName \<and> matchLocation \<and> matchTech)"

text \<open>
  The mapper's \<^verbatim>\<open>findVal\<close> (script.js 529-532). When no key matches, \<^verbatim>\<open>key\<close> is
  undefined and \<^verbatim>\<open>row[key]\<close> reads the property named \<^verbatim>\<open>undefined\<close>.
\<close>

definition findVal :: "jsobj \<Rightarrow> string \<Rightarrow> jsval" where
  "findVal row keyPart =
     (let key = find (\<lambda>k. str_includes (toLowerCase k) keyPart) (keys row)
      in js_or (obj_get row (case key of None \<Rightarrow> ''undefined'' | Some k \<Rightarrow> k)) (JStr []))"

text \<open>The function handed to \<^verbatim>\<open>results.map\<close> (script.js 527-541).\<close>

definition mapRow :: "jsobj \<Rightarrow> jsobj" where
  "mapRow row =
     [(''name'', findVal row ''name''),
      (''location'', js_or (findVal row ''location'') (findVal row ''city'')),
      (''technology'', js_or (findVal row ''tech'') (findVal row ''skill'')),
      (''email'', js_or (findVal row ''email'') (findVal row ''mail'')),
      (''phone'',
         js_or (js_or (findVal row ''phone'') (findVal row ''mobile'')) (findVal row ''contact''))]"

definition processLocalFile :: "'ws xlsx \<Rightarrow> string \<Rightarrow> criteria \<Rightarrow> error + jsobj list" where
  "processLocalFile lib base64Data crit =
     (case xlsx_read lib (cleanBase64 base64Data) of
        Inl e \<Rightarrow> Inl e
      | Inr wb \<Rightarrow>
          (let firstSheetName = (case SheetNames wb of [] \<Rightarrow> ''undefined'' | n # _ \<Rightarrow> n);
               worksheet = map_of (Sheets wb) firstSheetName
           in case sheet_to_json lib worksheet (JStr []) of
                Inl e \<Rightarrow> Inl e
              | Inr jsonData \<Rightarrow> Inr (map mapRow (filter (rowMatches crit) jsonData))))"

section \<open>Page state and the calls that leave the page\<close>

record attachment =
  fileData :: string
  fileName :: string
  fileMimeType :: string

text \<open>
  A file of \<^verbatim>\<open>fileInput.files\<close>: its name, its type, and what \<^verbatim>\<open>toBase64\<close>
  (\<^verbatim>\<open>FileReader.readAsDataURL\<close>) gives for it.
\<close>

record upload =
  fname :: string
  ftype :: string
  fdataurl :: "error + string"

text \<open>\<^verbatim>\<open>{ ...{ name, location, technology }, ...filePayload }\<close>\<close>

record payload = criteria +
  attached :: "attachment option"

text \<open>
  A network call: the multipart POST to the logging webhook (script.js 129-142), or
  \<^verbatim>\<open>searchData\<close>'s JSON POST to a URL.
\<close>

datatype request =
  Telemetry string string string "upload option"
| PostJson string payload

text \<open>
  What an export hands over: the CSV blob (file name, text), the objects given to
  \<^verbatim>\<open>XLSX.utils.json_to_sheet\<close> with the sheet's name, the caption, head and body given
  to jsPDF.
\<close>

datatype download =
  CsvBlob string string
| XlsxBook string string "jsobj list"
| PdfDoc string string "string list" "jsval list list"

record state =
  currentData :: "jsobj list"
  cachedFilePayload :: "attachment option"
  sessionStorage :: "attachment option"
  tableRows :: "string list list"
  resultsHidden :: bool
  noDataHidden :: bool
  redrobBtnHidden :: bool
  noDataTitle :: string
  noDataText :: string
  loadingHidden :: bool
  searchBtnDisabled :: bool
  toasts :: "(string \<times> string) list"
  requests :: "request list"
  downloads :: "download list"

text \<open>
  What a handler reads from outside the page state: the form, the file input, whether
  \<^verbatim>\<open>sessionStorage.setItem\<close> succeeds, the sheet library, what an endpoint answers
  (\<open>Inl\<close>: the fetch fails or the status is not ok; \<open>Inr\<close>: the JSON array of
  records the code expects), and the date in the export's file name.
\<close>

record 'ws env =
  formName :: string
  formLocation :: string
  formTechnology :: string
  files :: "upload list"
  storageOk :: bool
  lib :: "'ws xlsx"
  respond :: "string \<Rightarrow> payload \<Rightarrow> error + jsobj list"
  today :: string

definition SHEET_WEBHOOK :: string where
  "SHEET_WEBHOOK = ''https://telsleadsfinders.vercel.app/''"

definition REDROB_WEBHOOK :: string where
  "REDROB_WEBHOOK = ''YOUR_REDROB_WEBHOOK_URL_HERE''"

definition showNotification :: "string \<Rightarrow> string \<Rightarrow> state \<Rightarrow> state" where
  "showNotification message type st = st\<lparr>toasts := toasts st @ [(message, type)]\<rparr>"

definition searchData :: "'ws env \<Rightarrow> string \<Rightarrow> payload \<Rightarrow> state \<Rightarrow> (error + jsobj list) \<times> state" where
  "searchData env url p st = (respond env url p, st\<lparr>requests := requests st @ [PostJson url p]\<rparr>)"

definition escapeHtml :: "string \<Rightarrow> string" where
  "escapeHtml s =
     replaceAll (CHR 0x27) ''&#039;''
       (replaceAll (CHR 0x22) ''&quot;''
         (replaceAll CHR ''>'' ''&gt;''
           (replaceAll CHR ''<'' ''&lt;''
             (replaceAll CHR ''&'' ''&amp;'' s))))"

text \<open>One \<^verbatim>\<open><td>\<close> of \<^verbatim>\<open>renderTable\<close>: \<^verbatim>\<open>escapeHtml(row.f || '-')\<close>.\<close>

definition renderCell :: "jsobj \<Rightarrow> string \<Rightarrow> string" where
  "renderCell row f = escapeHtml (js_String (js_or (obj_get row f) (JStr ''-'')))"

definition renderTable :: "jsobj list \<Rightarrow> state \<Rightarrow> state" where
  "renderTable data st =
     st\<lparr>currentData := data,
        tableRows :=
          map (\<lambda>row. [renderCell row ''name'', renderCell row ''location'',
                       renderCell row ''technology'', renderCell row ''email'',
                       renderCell row ''phone'']) data,
        resultsHidden := False\<rparr>"

definition showLoading :: "state \<Rightarrow> state" where
  "showLoading st =
     st\<lparr>searchBtnDisabled := True,
        loadingHidden := (if resultsHidden st then False else loadingHidden st)\<rparr>"

definition hideLoading :: "state \<Rightarrow> state" where
  "hideLoading st = st\<lparr>searchBtnDisabled := False, loadingHidden := True\<rparr>"

definition showNoData :: "state \<Rightarrow> state" where
  "showNoData st =
     st\<lparr>noDataTitle := ''No matching leads found'',
        noDataText :=
          ''We couldn'' @ [CHR 0x27] @ ''t find any results in our sheets or your uploaded file.'',
        redrobBtnHidden := False,
        noDataHidden := False\<rparr>"

definition resetUI :: "state \<Rightarrow> state" where
  "resetUI st = st\<lparr>resultsHidden := True, noDataHidden := True, currentData := []\<rparr>"

definition saveFileToStorage :: "'ws env \<Rightarrow> attachment \<Rightarrow> state \<Rightarrow> state" where
  "saveFileToStorage env p st =
     (if storageOk env then st\<lparr>sessionStorage := Some p, cachedFilePayload := Some p\<rparr>
      else showNotification ''File too large to save for refresh, but search will work.''
             ''error'' st)"

section \<open>The search handlers\<close>

text \<open>script.js 159-160.\<close>

definition isExcelOrCsv :: "attachment \<Rightarrow> bool" where
  "isExcelOrCsv a =
     (let fileType = str_or (fileMimeType a) []
      in str_includes fileType ''sheet'' \<or> str_includes fileType ''excel''
         \<or> str_includes fileType ''csv'' \<or> endsWith (fileName a) ''.csv''
         \<or> endsWith (fileName a) ''.xlsx'')"

text \<open>\<^verbatim>\<open>payload.fileData\<close> as a condition.\<close>

definition hasFileData :: "attachment option \<Rightarrow> bool" where
  "hasFileData fp = (case fp of None \<Rightarrow> False | Some a \<Rightarrow> fileData a \<noteq> [])"

definition handleSearch :: "'ws env \<Rightarrow> state \<Rightarrow> state" where
  "handleSearch env st =
     (let nm = formName env; loc = formLocation env; tech = formTechnology env
      in case (case files env of
                 f # _ \<Rightarrow>
                   (case fdataurl f of
                      Inl err \<Rightarrow> Inl (showNotification ''Failed to process file'' ''error'' st)
                    | Inr base64 \<Rightarrow>
                        (let fp = \<lparr>fileData = base64, fileName = fname f, fileMimeType = ftype f\<rparr>
                         in Inr (Some fp, saveFileToStorage env fp st)))
               | [] \<Rightarrow> Inr (cachedFilePayload st, st)) of
           Inl st' \<Rightarrow> st'
         | Inr (filePayload, st1) \<Rightarrow>
             (let p = \<lparr>name = nm, location = loc, technology = tech, attached = filePayload\<rparr>
              in if nm = [] \<and> loc = [] \<and> tech = [] \<and> \<not> hasFileData filePayload
                 then showNotification
                        ''Please enter at least one search criteria or upload a file.'' ''error'' st1
                 else
                   (let st2 = st1\<lparr>requests := requests st1 @
                                [Telemetry nm loc tech (case files env of [] \<Rightarrow> None | f # _ \<Rightarrow> Some f)]\<rparr>;
                        st3 = showLoading (resetUI st2);
                        (res, st4) =
                          (case filePayload of
                             None \<Rightarrow> searchData env SHEET_WEBHOOK p st3
                           | Some a \<Rightarrow>
                               if fileData a \<noteq> [] then
                                 (if isExcelOrCsv a
                                  then (processLocalFile (lib env) (fileData a)
                                          \<lparr>name = nm, location = loc, technology = tech\<rparr>, st3)
                                  else searchData env SHEET_WEBHOOK p st3)
                               else searchData env SHEET_WEBHOOK p st3)
                    in case res of
                         Inl err \<Rightarrow>
                           showNotification ''An error occurred while searching.'' ''error''
                             (hideLoading st4)
                       | Inr data \<Rightarrow>
                           (let st5 = hideLoading st4
                            in if data \<noteq> [] then renderTable data st5 else showNoData st5))))"

definition handleRedrobSearch :: "'ws env \<Rightarrow> state \<Rightarrow> state" where
  "handleRedrobSearch env st =
     (let p = \<lparr>name = formName env, location = formLocation env,
                technology = formTechnology env, attached = None\<rparr>;
          st1 = showLoading (st\<lparr>noDataHidden := True\<rparr>);
          (res, st2) = searchData env REDROB_WEBHOOK p st1
      in case res of
           Inl err \<Rightarrow>
             (if REDROB_WEBHOOK = ''YOUR_REDROB_WEBHOOK_URL_HERE''
              then showNotification ''Error: Please replace Redrob Webhook URL in script.js.''
                     ''error'' (hideLoading st2)
              else showNotification ''Failed to search Redrob.'' ''error'' (hideLoading st2))
         | Inr data \<Rightarrow>
             (let st3 = hideLoading st2
              in if data \<noteq> [] then renderTable data st3
                 else (showNoData (showNotification ''No data found on Redrob either.'' ''error'' st3))
                        \<lparr>noDataTitle := ''Still no results'',
                          noDataText := ''We checked Redrob too, but found nothing.'',
                          redrobBtnHidden := True\<rparr>))"

section \<open>Exports\<close>

definition fields :: "string list" where
  "fields = [''name'', ''location'', ''technology'', ''email'', ''phone'']"

text \<open>One value of a CSV row (script.js 566-568).\<close>

definition csvValue :: "jsobj \<Rightarrow> string \<Rightarrow> string" where
  "csvValue row field =
     (let val = js_or (obj_get row field) (JStr [])
      in [CHR 0x22] @ replaceAll (CHR 0x22) [CHR 0x22, CHR 0x22] (js_String val) @ [CHR 0x22])"

definition csvString :: "jsobj list \<Rightarrow> string" where
  "csvString data =
     join [CHR 0x0A] (join '','' fields # map (\<lambda>row. join '','' (map (csvValue row) fields)) data)"

definition downloadCSV :: "'ws env \<Rightarrow> state \<Rightarrow> state" where
  "downloadCSV env st =
     (if currentData st = [] then st
      else showNotification ''CSV Downloaded'' ''success''
             (st\<lparr>downloads := downloads st @
                  [CsvBlob (''leads_export_'' @ today env @ ''.csv'') (csvString (currentData st))]\<rparr>))"

definition downloadExcel :: "'ws env \<Rightarrow> state \<Rightarrow> state" where
  "downloadExcel env st =
     (if currentData st = [] then st
      else showNotification ''Excel Downloaded'' ''success''
             (st\<lparr>downloads := downloads st @
                  [XlsxBook (''leads_export_'' @ today env @ ''.xlsx'') ''Leads'' (currentData st)]\<rparr>))"

definition downloadPDF :: "'ws env \<Rightarrow> state \<Rightarrow> state" where
  "downloadPDF env st =
     (if currentData st = [] then st
      else showNotification ''PDF Downloaded'' ''success''
             (st\<lparr>downloads := downloads st @
                  [PdfDoc (''leads_export_'' @ today env @ ''.pdf'') ''Leads Search Results''
                     [''Name'', ''Location'', ''Technology'', ''Email'', ''Phone'']
                     (map (\<lambda>row. [obj_get row ''name'', obj_get row ''location'',
                                  obj_get row ''technology'', obj_get row ''email'',
                                  obj_get row ''phone'']) (currentData st))]\<rparr>))"

section \<open>Concrete inputs\<close>

text \<open>The page as it is loaded: nothing searched, nothing attached.\<close>

definition st0 :: state where
  "st0 = \<lparr>currentData = [], cachedFilePayload = None, sessionStorage = None, tableRows = [],
          resultsHidden = True, noDataHidden = True, redrobBtnHidden = False,
          noDataTitle = ''No matching leads found'', noDataText = [],
          loadingHidden = True, searchBtnDisabled = False, toasts = [], requests = [],
          downloads = []\<rparr>"

text \<open>
  The CSV of scenario B: headers Full Name, City, Skillset and the row Jane Doe, Austin,
  Go; its base64 text, its data URL, and a sheet library that decodes exactly that text
  to a one-sheet workbook (a worksheet being its list of rows).
\<close>

definition rowB :: jsobj where
  "rowB = [(''Full Name'', JStr ''Jane Doe''), (''City'', JStr ''Austin''),
           (''Skillset'', JStr ''Go'')]"

definition base64B :: string where
  "base64B = ''RnVsbCBOYW1lLENpdHksU2tpbGxzZXQKSmFuZSBEb2UsQXVzdGluLEdvCg==''"

definition dataUrlB :: string where
  "dataUrlB = ''data:text/csv;base64,'' @ base64B"

definition libB :: "(jsobj list) xlsx" where
  "libB = \<lparr>xlsx_read = (\<lambda>d. if d = base64B then Inr (Workbook [''Sheet1''] [(''Sheet1'', [rowB])])
                            else Inl XlsxError),
            sheet_to_json = (\<lambda>ws defval. Inr (case ws of None \<Rightarrow> [] | Some rows \<Rightarrow> rows))\<rparr>"

definition fileB :: upload where
  "fileB = \<lparr>fname = ''leads.csv'', ftype = ''text/csv'', fdataurl = Inr dataUrlB\<rparr>"

definition critB :: criteria where
  "critB = \<lparr>name = [], location = ''austin'', technology = []\<rparr>"

definition envB :: "(jsobj list) env" where
  "envB = \<lparr>formName = [], formLocation = ''austin'', formTechnology = [], files = [fileB],
            storageOk = True, lib = libB, respond = (\<lambda>url p. Inr []), today = ''2026-01-15''\<rparr>"

text \<open>A submission with an empty form and no file; every endpoint answers \<open>[]\<close>.\<close>

definition envEmpty :: "(jsobj list) env" where
  "envEmpty = \<lparr>formName = [], formLocation = [], formTechnology = [], files = [],
                storageOk = True, lib = libB, respond = (\<lambda>url p. Inr []), today = ''2026-01-15''\<rparr>"

text \<open>A PDF attached, location Austin typed; every endpoint answers \<open>[]\<close>.\<close>

definition filePdf :: upload where
  "filePdf = \<lparr>fname = ''cv.pdf'', ftype = ''application/pdf'',
               fdataurl = Inr ''data:application/pdf;base64,JVBERi0=''\<rparr>"

definition envPdf :: "(jsobj list) env" where
  "envPdf = \<lparr>formName = [], formLocation = ''Austin'', formTechnology = [], files = [filePdf],
              storageOk = True, lib = libB, respond = (\<lambda>url p. Inr []), today = ''2026-01-15''\<rparr>"

text \<open>A row whose only place header is City.\<close>

definition rowCity :: jsobj where
  "rowCity = [(''Name'', JStr ''Jane Doe''), (''City'', JStr ''Austin'')]"

text \<open>The attachments of the two submissions above, as \<^verbatim>\<open>handleSearch\<close> builds them.\<close>

definition attB :: attachment where
  "attB = \<lparr>fileData = dataUrlB, fileName = ''leads.csv'', fileMimeType = ''text/csv''\<rparr>"

definition attPdf :: attachment where
  "attPdf = \<lparr>fileData = ''data:application/pdf;base64,JVBERi0='', fileName = ''cv.pdf'',
              fileMimeType = ''application/pdf''\<rparr>"

section \<open>Reading a CSV text back\<close>

text \<open>
  A reader of comma-separated text, written from the format (RFC 4180) and not from
  script.js: fields are separated by commas and records by line feeds; a field that
  starts with a double quote runs to the closing quote and may hold commas, line feeds
  and, doubled, quotes. It is what the export's text is compared with.
\<close>

datatype csv_state = FieldStart | Bare | Quoted | QuoteSeen

fun csv_read ::
  "csv_state \<Rightarrow> string \<Rightarrow> string list \<Rightarrow> string list list \<Rightarrow> string \<Rightarrow> string list list option"
where
  "csv_read s fld row rows [] =
     (case s of Quoted \<Rightarrow> None | _ \<Rightarrow> Some (rows @ [row @ [fld]]))"
| "csv_read s fld row rows (c # cs) =
     (case s of
        FieldStart \<Rightarrow>
          if c = CHR 0x22 then csv_read Quoted [] row rows cs
          else if c = CHR '','' then csv_read FieldStart [] (row @ [[]]) rows cs
          else if c = CHR 0x0A then csv_read FieldStart [] [] (rows @ [row @ [[]]]) cs
          else csv_read Bare [c] row rows cs
      | Bare \<Rightarrow>
          if c = CHR 0x22 then None
          else if c = CHR '','' then csv_read FieldStart [] (row @ [fld]) rows cs
          else if c = CHR 0x0A then csv_read FieldStart [] [] (rows @ [row @ [fld]]) cs
          else csv_read Bare (fld @ [c]) row rows cs
      | Quoted \<Rightarrow>
          if c = CHR 0x22 then csv_read QuoteSeen fld row rows cs
          else csv_read Quoted (fld @ [c]) row rows cs
      | QuoteSeen \<Rightarrow>
          if c = CHR 0x22 then csv_read Quoted (fld @ [CHR 0x22]) row rows cs
          else if c = CHR '','' then csv_read FieldStart [] (row @ [fld]) rows cs
          else if c = CHR 0x0A then csv_read FieldStart [] [] (rows @ [row @ [fld]]) cs
          else None)"

definition parse_csv :: "string \<Rightarrow> string list list option" where
  "parse_csv text = csv_read FieldStart [] [] [] text"

text \<open>The text of a value as the CSV export writes it, before quoting: \<^verbatim>\<open>String(v || '')\<close>.\<close>

definition csvText :: "jsval \<Rightarrow> string" where
  "csvText v = js_String (js_or v (JStr []))"

text \<open>A record with a quote and a comma in its location.\<close>

definition recLoop :: jsobj where
  "recLoop = [(''name'', JStr ''Jane Doe''),
              (''location'', JStr (''Chicago, '' @ [CHR 0x22] @ ''Loop'' @ [CHR 0x22])),
              (''technology'', JStr ''Go''), (''email'', JStr ''jane@example.com''),
              (''phone'', JStr [])]"

section \<open>Spec-side notions for the mapper and the exports\<close>

text \<open>
  The tokens the specification lists for each canonical field (section 4.1), in the
  order they are tried.
\<close>

definition fieldTokens :: "string \<Rightarrow> string list" where
  "fieldTokens f =
     (if f = ''name'' then [''name'']
      else if f = ''location'' then [''location'', ''city'']
      else if f = ''technology'' then [''tech'', ''skill'']
      else if f = ''email'' then [''email'', ''mail'']
      else if f = ''phone'' then [''phone'', ''mobile'', ''contact'']
      else [])"

definition isString :: "jsval \<Rightarrow> bool" where
  "isString v = (case v of JStr s \<Rightarrow> True | _ \<Rightarrow> False)"

text \<open>Two records agree on the five fields that rendering reads.\<close>

definition sameFields :: "jsobj \<Rightarrow> jsobj \<Rightarrow> bool" where
  "sameFields r r' = list_all (\<lambda>f. obj_get r f = obj_get r' f) fields"

section \<open>Further concrete inputs\<close>

text \<open>
  A row whose phone column was decoded as a number, and a row with a header spelled
  undefined.
\<close>

definition rowPhone :: jsobj where
  "rowPhone = [(''Name'', JStr ''Jane Doe''), (''Phone'', JNum 5551234)]"

definition rowUndef :: jsobj where
  "rowUndef = [(''undefined'', JStr ''x''), (''City'', JStr ''Austin'')]"

text \<open>
  Two records, as an endpoint may return them, that differ only in a sixth field; a record
  whose phone is the number 0.
\<close>

definition recExtraA :: jsobj where
  "recExtraA = [(''name'', JStr ''Jane Doe''), (''location'', JStr ''Austin''),
                (''technology'', JStr ''Go''), (''email'', JStr ''jane@example.com''),
                (''phone'', JStr ''555-0100''), (''linkedin'', JStr ''in/jane'')]"

definition recExtraB :: jsobj where
  "recExtraB = [(''name'', JStr ''Jane Doe''), (''location'', JStr ''Austin''),
                (''technology'', JStr ''Go''), (''email'', JStr ''jane@example.com''),
                (''phone'', JStr ''555-0100''), (''linkedin'', JStr ''in/other'')]"

definition recZero :: jsobj where
  "recZero = [(''name'', JStr ''Jane Doe''), (''phone'', JNum 0)]"

section \<open>Basic facts\<close>

lemmas ui_defs = showNotification_def searchData_def hideLoading_def showLoading_def resetUI_def
  renderTable_def showNoData_def saveFileToStorage_def

lemmas str_defs = toLowerCase_def lowerChar_def str_or_def keys_def obj_get_def js_or_def

lemma str_or_nil [simp]: "str_or s [] = s"
  by (simp add: str_or_def)

lemma str_includes_sublist: "str_includes s t = sublist t s"
  by (induction s) (auto simp: sublist_Cons_right)

lemma isExcelOrCsv_iff:
  "isExcelOrCsv a \<longleftrightarrow>
     str_includes (fileMimeType a) ''sheet'' \<or> str_includes (fileMimeType a) ''excel''
     \<or> str_includes (fileMimeType a) ''csv'' \<or> endsWith (fileName a) ''.csv''
     \<or> endsWith (fileName a) ''.xlsx''"
  by (simp add: isExcelOrCsv_def Let_def)

subsection \<open>Scenario B, evaluated\<close>

lemma cleanBase64_dataUrlB: "cleanBase64 dataUrlB = base64B"
  by (simp add: cleanBase64_def dataUrlB_def base64B_def str_or_def)

lemma dataUrlB_nonempty: "dataUrlB \<noteq> []"
  by (simp add: dataUrlB_def)

lemma mapRow_rowB:
  "mapRow rowB =
     [(''name'', JStr ''Jane Doe''), (''location'', JStr ''Austin''), (''technology'', JStr ''Go''),
      (''email'', JStr []), (''phone'', JStr [])]"
  by (simp add: mapRow_def rowB_def findVal_def str_defs)

lemma getValue_location_rowB: "getValue rowB ''location'' = []"
  by (simp add: rowB_def getValue_def str_defs)

lemma rowMatches_rowB: "\<not> rowMatches critB rowB"
  by (simp add: rowMatches_def critB_def getValue_location_rowB toLowerCase_def lowerChar_def)

lemma processLocalFile_B: "processLocalFile libB dataUrlB critB = Inr []"
  by (simp add: processLocalFile_def cleanBase64_dataUrlB libB_def rowMatches_rowB)

lemma isExcelOrCsv_B:
  "isExcelOrCsv \<lparr>fileData = dataUrlB, fileName = ''leads.csv'', fileMimeType = ''text/csv''\<rparr>"
  by (simp add: isExcelOrCsv_def)

section \<open>Scenario B (C1)\<close>

text \<open>
  C1. Scenario B on the code: the CSV with headers Full Name, City, Skillset and the row
  (Jane Doe, Austin, Go) is attached and the location criterion is austin. The search takes
  the local path (the only network call is the logging webhook, nothing is posted to the
  primary endpoint) and the mapper gives name = Jane Doe, location = Austin,
  technology = Go for the row. But the filter reads the row's location only from a header
  containing location, finds none, compares the empty string with austin and drops the
  row: the result has length 0, not 1, and the page shows the no-data section.
\<close>

theorem scenarioB_result_empty:
  "requests (handleSearch envB st0) = [Telemetry [] ''austin'' [] (Some fileB)]
   \<and> mapRow rowB =
       [(''name'', JStr ''Jane Doe''), (''location'', JStr ''Austin''),
        (''technology'', JStr ''Go''), (''email'', JStr []), (''phone'', JStr [])]
   \<and> getValue rowB ''location'' = []
   \<and> \<not> rowMatches critB rowB
   \<and> processLocalFile libB dataUrlB critB = Inr []
   \<and> length (currentData (handleSearch envB st0)) = 0
   \<and> tableRows (handleSearch envB st0) = []
   \<and> \<not> noDataHidden (handleSearch envB st0)"
  using processLocalFile_B [unfolded critB_def]
  by (simp add: mapRow_rowB rowMatches_rowB getValue_location_rowB processLocalFile_B
       handleSearch_def envB_def fileB_def st0_def hasFileData_def ui_defs
       isExcelOrCsv_B dataUrlB_nonempty Let_def)

section \<open>The criteria filter (C2)\<close>

lemma toLowerCase_eq_Nil [simp]: "toLowerCase s = [] \<longleftrightarrow> s = []"
  by (simp add: toLowerCase_def)

text \<open>
  What the filter does decide: each criterion is a wildcard when empty and otherwise must
  occur, lower-cased, in the lower-cased text the filter derives from the row.
\<close>

lemma rowMatches_iff:
  "rowMatches crit row \<longleftrightarrow>
     (name crit = [] \<or> str_includes (getValue row ''name'') (toLowerCase (name crit)))
     \<and> (location crit = [] \<or> str_includes (getValue row ''location'') (toLowerCase (location crit)))
     \<and> (technology crit = []
        \<or> str_includes (str_or (getValue row ''tech'') (getValue row ''skill''))
             (toLowerCase (technology crit)))"
  by (simp add: rowMatches_def Let_def)

text \<open>
  C2. The filter does not derive the row's location as the mapper does: for a row whose
  place is under a City header the mapper gives location = Austin, whose lower-cased text
  contains the criterion austin, yet the filter's own location string is empty (it looks
  for a header containing location only) and the row is excluded.
\<close>

theorem filter_location_without_city_fallback:
  "obj_get (mapRow rowCity) ''location'' = JStr ''Austin''
   \<and> str_includes (toLowerCase (js_String (obj_get (mapRow rowCity) ''location'')))
        (toLowerCase (location critB))
   \<and> getValue rowCity ''location'' = []
   \<and> \<not> rowMatches critB rowCity"
  by (simp add: rowMatches_iff mapRow_def rowCity_def critB_def findVal_def getValue_def str_defs)

section \<open>Validation (C4)\<close>

text \<open>
  C4. When the three criteria are empty and there is neither a selected file nor a cached
  payload, the submission ends at the validation: the only change to the page is the error
  notification, and no network call is made, neither the logging webhook nor a search.
\<close>

theorem handleSearch_validation:
  assumes "formName env = []" and "formLocation env = []" and "formTechnology env = []"
    and "files env = []" and "cachedFilePayload st = None"
  shows "handleSearch env st =
           st\<lparr>toasts := toasts st @
               [(''Please enter at least one search criteria or upload a file.'', ''error'')]\<rparr>
         \<and> requests (handleSearch env st) = requests st"
  using assms by (simp add: handleSearch_def hasFileData_def showNotification_def)

theorem handleSearch_validation_witness:
  "handleSearch envEmpty st0 =
     st0\<lparr>toasts := [(''Please enter at least one search criteria or upload a file.'', ''error'')]\<rparr>
   \<and> requests (handleSearch envEmpty st0) = []"
  using handleSearch_validation [of envEmpty st0]
  by (simp add: envEmpty_def st0_def)

section \<open>Routing (C5)\<close>

lemma handleSearch_selected:
  assumes "files env = f # fs" and "fdataurl f = Inr d" and "d \<noteq> []"
  shows "requests (handleSearch env st) =
           requests st @ Telemetry (formName env) (formLocation env) (formTechnology env) (Some f) #
             (if isExcelOrCsv \<lparr>fileData = d, fileName = fname f, fileMimeType = ftype f\<rparr> then []
              else [PostJson SHEET_WEBHOOK \<lparr>name = formName env, location = formLocation env,
                      technology = formTechnology env,
                      attached = Some \<lparr>fileData = d, fileName = fname f, fileMimeType = ftype f\<rparr>\<rparr>])"
    and "currentData (handleSearch env st) =
           (case (if isExcelOrCsv \<lparr>fileData = d, fileName = fname f, fileMimeType = ftype f\<rparr>
                  then processLocalFile (lib env) d
                         \<lparr>name = formName env, location = formLocation env,
                            technology = formTechnology env\<rparr>
                  else respond env SHEET_WEBHOOK
                         \<lparr>name = formName env, location = formLocation env,
                            technology = formTechnology env,
                            attached = Some \<lparr>fileData = d, fileName = fname f, fileMimeType = ftype f\<rparr>\<rparr>)
            of Inl e \<Rightarrow> [] | Inr rows \<Rightarrow> rows)"
  using assms
  by (simp_all add: handleSearch_def hasFileData_def ui_defs Let_def split: sum.splits)

lemma handleSearch_cached:
  assumes "files env = []" and "cachedFilePayload st = Some a" and "fileData a \<noteq> []"
  shows "requests (handleSearch env st) =
           requests st @ Telemetry (formName env) (formLocation env) (formTechnology env) None #
             (if isExcelOrCsv a then []
              else [PostJson SHEET_WEBHOOK \<lparr>name = formName env, location = formLocation env,
                      technology = formTechnology env, attached = Some a\<rparr>])"
    and "currentData (handleSearch env st) =
           (case (if isExcelOrCsv a
                  then processLocalFile (lib env) (fileData a)
                         \<lparr>name = formName env, location = formLocation env,
                            technology = formTechnology env\<rparr>
                  else respond env SHEET_WEBHOOK
                         \<lparr>name = formName env, location = formLocation env,
                            technology = formTechnology env, attached = Some a\<rparr>)
            of Inl e \<Rightarrow> [] | Inr rows \<Rightarrow> rows)"
  using assms
  by (simp_all add: handleSearch_def hasFileData_def ui_defs Let_def split: sum.splits)

text \<open>
  C5. A submission with an attachment \<open>a\<close>: the file selected in the input, read to a
  data URL, or else the cached payload; its data is not empty (a data URL never is). If the
  MIME type contains sheet, excel or csv, or the name ends in .csv or .xlsx, the only network
  call is the logging webhook and the result set is what the local search of the
  attachment gives: nothing is posted to the primary endpoint. Otherwise the payload with
  the attachment in it, as it was read, is posted to the primary endpoint and the result
  set is the endpoint's answer.
\<close>

theorem handleSearch_routing:
  fixes env :: "'ws env" and a :: attachment
  defines "crit \<equiv> \<lparr>name = formName env, location = formLocation env,
                    technology = formTechnology env\<rparr>"
  defines "p \<equiv> \<lparr>name = formName env, location = formLocation env,
                 technology = formTechnology env, attached = Some a\<rparr>"
  defines "tele \<equiv> Telemetry (formName env) (formLocation env) (formTechnology env)
                    (case files env of [] \<Rightarrow> None | f # _ \<Rightarrow> Some f)"
  assumes att: "(\<exists>f fs. files env = f # fs \<and> fdataurl f = Inr (fileData a)
                    \<and> fname f = fileName a \<and> ftype f = fileMimeType a)
              \<or> (files env = [] \<and> cachedFilePayload st = Some a)"
    and dat: "fileData a \<noteq> []"
  shows "if str_includes (fileMimeType a) ''sheet'' \<or> str_includes (fileMimeType a) ''excel''
            \<or> str_includes (fileMimeType a) ''csv'' \<or> endsWith (fileName a) ''.csv''
            \<or> endsWith (fileName a) ''.xlsx''
         then requests (handleSearch env st) = requests st @ [tele]
            \<and> currentData (handleSearch env st) =
                (case processLocalFile (lib env) (fileData a) crit of Inl e \<Rightarrow> [] | Inr d \<Rightarrow> d)
         else requests (handleSearch env st) = requests st @ [tele, PostJson SHEET_WEBHOOK p]
            \<and> currentData (handleSearch env st) =
                (case respond env SHEET_WEBHOOK p of Inl e \<Rightarrow> [] | Inr d \<Rightarrow> d)"
proof -
  from att show ?thesis
  proof
    assume "\<exists>f fs. files env = f # fs \<and> fdataurl f = Inr (fileData a)
                    \<and> fname f = fileName a \<and> ftype f = fileMimeType a"
    then obtain f fs where f: "files env = f # fs" "fdataurl f = Inr (fileData a)"
      and fa: "fname f = fileName a" "ftype f = fileMimeType a" by blast
    from fa have a_eq: "\<lparr>fileData = fileData a, fileName = fname f, fileMimeType = ftype f\<rparr> = a"
      by simp
    show ?thesis
      using handleSearch_selected [OF f dat, of st] f
      unfolding a_eq crit_def p_def tele_def isExcelOrCsv_iff [symmetric]
      by simp
  next
    assume c: "files env = [] \<and> cachedFilePayload st = Some a"
    show ?thesis
      using handleSearch_cached [of env st a] c dat
      unfolding crit_def p_def tele_def isExcelOrCsv_iff [symmetric]
      by simp
  qed
qed

theorem handleSearch_routing_witness:
  "requests (handleSearch envB st0) = [Telemetry [] ''austin'' [] (Some fileB)]
   \<and> requests (handleSearch envPdf st0) =
       [Telemetry [] ''Austin'' [] (Some filePdf),
        PostJson SHEET_WEBHOOK
          \<lparr>name = [], location = ''Austin'', technology = [], attached = Some attPdf\<rparr>]"
proof -
  have b: "(\<exists>f fs. files envB = f # fs \<and> fdataurl f = Inr (fileData attB)
                    \<and> fname f = fileName attB \<and> ftype f = fileMimeType attB)
              \<or> (files envB = [] \<and> cachedFilePayload st0 = Some attB)"
    by (simp add: envB_def fileB_def attB_def)
  have b': "fileData attB \<noteq> []"
    by (simp add: attB_def dataUrlB_nonempty)
  have p: "(\<exists>f fs. files envPdf = f # fs \<and> fdataurl f = Inr (fileData attPdf)
                    \<and> fname f = fileName attPdf \<and> ftype f = fileMimeType attPdf)
              \<or> (files envPdf = [] \<and> cachedFilePayload st0 = Some attPdf)"
    by (simp add: envPdf_def filePdf_def attPdf_def)
  have p': "fileData attPdf \<noteq> []"
    by (simp add: attPdf_def)
  have cb: "str_includes (fileMimeType attB) ''csv''"
    by (simp add: attB_def)
  have cp: "\<not> (str_includes (fileMimeType attPdf) ''sheet'' \<or> str_includes (fileMimeType attPdf) ''excel''
            \<or> str_includes (fileMimeType attPdf) ''csv'' \<or> endsWith (fileName attPdf) ''.csv''
            \<or> endsWith (fileName attPdf) ''.xlsx'')"
    by (simp add: attPdf_def endsWith_def suffix_def)
  from handleSearch_routing [OF b b'] cb
  have 1: "requests (handleSearch envB st0) = [Telemetry [] ''austin'' [] (Some fileB)]"
    by (simp add: envB_def st0_def)
  from handleSearch_routing [OF p p'] cp
  have 2: "requests (handleSearch envPdf st0) =
       [Telemetry [] ''Austin'' [] (Some filePdf),
        PostJson SHEET_WEBHOOK
          \<lparr>name = [], location = ''Austin'', technology = [], attached = Some attPdf\<rparr>]"
    by (simp add: envPdf_def st0_def)
  from 1 2 show ?thesis by simp
qed

section \<open>Fallback search (C9)\<close>

text \<open>
  C9. The fallback search posts the three criteria and nothing else to the secondary
  endpoint, whatever file is selected or cached. When the endpoint answers with an empty
  list, the page ends with the no-data section shown under a heading and a text of its own
  (not those of a first empty search), an error notification, and the fallback button
  hidden.
\<close>

theorem handleRedrobSearch_exhausted:
  fixes env :: "'ws env"
  defines "p \<equiv> \<lparr>name = formName env, location = formLocation env,
                 technology = formTechnology env, attached = None\<rparr>"
  shows "requests (handleRedrobSearch env st) = requests st @ [PostJson REDROB_WEBHOOK p]
    \<and> (respond env REDROB_WEBHOOK p = Inr [] \<longrightarrow>
         noDataTitle (handleRedrobSearch env st) = ''Still no results''
       \<and> noDataText (handleRedrobSearch env st) = ''We checked Redrob too, but found nothing.''
       \<and> noDataTitle (handleRedrobSearch env st) \<noteq> noDataTitle (showNoData st)
       \<and> noDataText (handleRedrobSearch env st) \<noteq> noDataText (showNoData st)
       \<and> toasts (handleRedrobSearch env st) =
           toasts st @ [(''No data found on Redrob either.'', ''error'')]
       \<and> redrobBtnHidden (handleRedrobSearch env st)
       \<and> \<not> noDataHidden (handleRedrobSearch env st)
       \<and> currentData (handleRedrobSearch env st) = currentData st
       \<and> tableRows (handleRedrobSearch env st) = tableRows st)"
  unfolding p_def
  by (simp add: handleRedrobSearch_def ui_defs Let_def REDROB_WEBHOOK_def split: sum.splits)

theorem handleRedrobSearch_exhausted_witness:
  "requests (handleRedrobSearch envB st0) =
     [PostJson REDROB_WEBHOOK \<lparr>name = [], location = ''austin'', technology = [], attached = None\<rparr>]
   \<and> noDataTitle (handleRedrobSearch envB st0) = ''Still no results''
   \<and> redrobBtnHidden (handleRedrobSearch envB st0)
   \<and> \<not> noDataHidden (handleRedrobSearch envB st0)"
  using handleRedrobSearch_exhausted [of envB st0]
  by (simp add: envB_def st0_def)


section \<open>Delimited-text export (C7)\<close>

lemma join_Cons: "join sep (x # xs) = x @ (if xs = [] then [] else sep @ join sep xs)"
  by (cases xs) simp_all

lemma csv_read_quoted_body:
  "csv_read Quoted fld row rows (replaceAll (CHR 0x22) [CHR 0x22, CHR 0x22] s @ rest) =
   csv_read Quoted (fld @ s) row rows rest"
  by (induction s arbitrary: fld) (simp_all add: replaceAll_def)

lemma csv_read_quoted_field:
  "csv_read FieldStart [] row rows
     ([CHR 0x22] @ replaceAll (CHR 0x22) [CHR 0x22, CHR 0x22] s @ [CHR 0x22] @ rest) =
   csv_read QuoteSeen s row rows rest"
  using csv_read_quoted_body [of "[]" row rows s "CHR 0x22 # rest"] by simp

lemma csvValue_eq:
  "csvValue r f =
     [CHR 0x22] @ replaceAll (CHR 0x22) [CHR 0x22, CHR 0x22] (csvText (obj_get r f)) @ [CHR 0x22]"
  by (simp add: csvValue_def csvText_def Let_def)

lemma csv_read_value:
  "csv_read FieldStart [] row rows (csvValue r f @ rest) =
   csv_read QuoteSeen (csvText (obj_get r f)) row rows rest"
  using csv_read_quoted_field [of row rows "csvText (obj_get r f)" rest]
  by (simp add: csvValue_eq)

lemma csv_read_values:
  "fs \<noteq> [] \<Longrightarrow>
   csv_read FieldStart [] row rows (join '','' (map (csvValue r) fs) @ rest) =
   csv_read QuoteSeen (csvText (obj_get r (last fs)))
     (row @ map (\<lambda>f. csvText (obj_get r f)) (butlast fs)) rows rest"
proof (induction fs arbitrary: row)
  case Nil
  then show ?case by simp
next
  case (Cons f fs)
  show ?case
  proof (cases "fs = []")
    case True
    then show ?thesis using csv_read_value [of row rows r f rest] by simp
  next
    case False
    have "csv_read FieldStart [] row rows (join '','' (map (csvValue r) (f # fs)) @ rest) =
          csv_read FieldStart [] row rows
            (csvValue r f @ CHR '','' # join '','' (map (csvValue r) fs) @ rest)"
      using False by (simp add: join_Cons)
    also have "\<dots> = csv_read FieldStart [] (row @ [csvText (obj_get r f)]) rows
                       (join '','' (map (csvValue r) fs) @ rest)"
      by (simp add: csv_read_value)
    also have "\<dots> = csv_read QuoteSeen (csvText (obj_get r (last fs)))
                       ((row @ [csvText (obj_get r f)]) @ map (\<lambda>f. csvText (obj_get r f)) (butlast fs))
                       rows rest"
      using Cons.IH [OF False] by simp
    finally show ?thesis using False by simp
  qed
qed

lemma csv_read_rows:
  "fs \<noteq> [] \<Longrightarrow> data \<noteq> [] \<Longrightarrow>
   csv_read FieldStart [] [] rows (join [CHR 0x0A] (map (\<lambda>r. join '','' (map (csvValue r) fs)) data)) =
   Some (rows @ map (\<lambda>r. map (\<lambda>f. csvText (obj_get r f)) fs) data)"
proof (induction data arbitrary: rows)
  case Nil
  then show ?case by simp
next
  case (Cons r data)
  note fs = \<open>fs \<noteq> []\<close>
  have row: "map (\<lambda>f. csvText (obj_get r f)) (butlast fs) @ [csvText (obj_get r (last fs))] =
             map (\<lambda>f. csvText (obj_get r f)) fs"
    using fs by (cases fs rule: rev_cases) simp_all
  show ?case
  proof (cases "data = []")
    case True
    then show ?thesis
      using csv_read_values [OF fs, of "[]" rows r "[]"] row by simp
  next
    case False
    have "csv_read FieldStart [] [] rows
            (join [CHR 0x0A] (map (\<lambda>r. join '','' (map (csvValue r) fs)) (r # data))) =
          csv_read FieldStart [] [] rows
            (join '','' (map (csvValue r) fs) @
               CHR 0x0A # join [CHR 0x0A] (map (\<lambda>r. join '','' (map (csvValue r) fs)) data))"
      using False by (simp add: join_Cons)
    also have "\<dots> = csv_read FieldStart [] [] (rows @ [map (\<lambda>f. csvText (obj_get r f)) fs])
                       (join [CHR 0x0A] (map (\<lambda>r. join '','' (map (csvValue r) fs)) data))"
      using csv_read_values [OF fs, of "[]" rows r] row by simp
    also have "\<dots> = Some ((rows @ [map (\<lambda>f. csvText (obj_get r f)) fs]) @
                             map (\<lambda>r. map (\<lambda>f. csvText (obj_get r f)) fs) data)"
      using Cons.IH [OF fs False] by simp
    finally show ?thesis by simp
  qed
qed

lemma csv_read_header:
  "csv_read FieldStart [] [] [] (join '','' fields @ CHR 0x0A # rest) =
   csv_read FieldStart [] [] [fields] rest"
  by (simp add: fields_def)

lemma parse_csv_csvString:
  assumes "data \<noteq> []"
  shows "parse_csv (csvString data) =
           Some (fields # map (\<lambda>r. map (\<lambda>f. csvText (obj_get r f)) fields) data)"
proof -
  have "fields \<noteq> []" by (simp add: fields_def)
  from csv_read_rows [OF this assms, of "[fields]"] assms
  show ?thesis
    by (simp add: parse_csv_def csvString_def join_Cons [of _ "join '','' fields"] csv_read_header)
qed


text \<open>
  C7. For a non-empty list of records that was rendered, the CSV download holds the header
  row name,location,technology,email,phone and then one row per record, in the records'
  order; each value is in double quotes with its own double quotes doubled. A CSV reader
  gets back from that text the header and, for every record, the text of its five values
  in the fixed order; for a text value that is the value itself, whatever commas, quotes or
  line feeds it holds.
\<close>

theorem downloadCSV_roundtrip:
  assumes "data \<noteq> []"
  shows "downloads (downloadCSV env (renderTable data st)) =
           downloads st @ [CsvBlob (''leads_export_'' @ today env @ ''.csv'') (csvString data)]
    \<and> csvString data =
        join [CHR 0x0A]
          (''name,location,technology,email,phone'' #
           map (\<lambda>r. join '',''
                  (map (\<lambda>f. [CHR 0x22] @
                         replaceAll (CHR 0x22) [CHR 0x22, CHR 0x22] (csvText (obj_get r f)) @
                         [CHR 0x22])
                     [''name'', ''location'', ''technology'', ''email'', ''phone''])) data)
    \<and> parse_csv (csvString data) =
        Some ([''name'', ''location'', ''technology'', ''email'', ''phone''] #
              map (\<lambda>r. map (\<lambda>f. csvText (obj_get r f))
                           [''name'', ''location'', ''technology'', ''email'', ''phone'']) data)
    \<and> (\<forall>s. csvText (JStr s) = s)"
proof -
  have 1: "downloads (downloadCSV env (renderTable data st)) =
           downloads st @ [CsvBlob (''leads_export_'' @ today env @ ''.csv'') (csvString data)]"
    using assms by (simp add: downloadCSV_def renderTable_def showNotification_def)
  have 2: "csvString data =
        join [CHR 0x0A]
          (''name,location,technology,email,phone'' #
           map (\<lambda>r. join '',''
                  (map (\<lambda>f. [CHR 0x22] @
                         replaceAll (CHR 0x22) [CHR 0x22, CHR 0x22] (csvText (obj_get r f)) @
                         [CHR 0x22])
                     [''name'', ''location'', ''technology'', ''email'', ''phone''])) data)"
    unfolding csvString_def fields_def csvValue_eq by simp
  have 3: "parse_csv (csvString data) =
        Some ([''name'', ''location'', ''technology'', ''email'', ''phone''] #
              map (\<lambda>r. map (\<lambda>f. csvText (obj_get r f))
                           [''name'', ''location'', ''technology'', ''email'', ''phone'']) data)"
    using parse_csv_csvString [OF assms] unfolding fields_def .
  have 4: "\<forall>s. csvText (JStr s) = s"
    by (simp add: csvText_def js_or_def)
  from 1 2 3 4 show ?thesis by blast
qed

theorem downloadCSV_roundtrip_witness:
  "parse_csv (csvString [recLoop]) =
     Some [[''name'', ''location'', ''technology'', ''email'', ''phone''],
           [''Jane Doe'', ''Chicago, '' @ [CHR 0x22] @ ''Loop'' @ [CHR 0x22], ''Go'',
            ''jane@example.com'', []]]
   \<and> csvValue recLoop ''location'' =
       [CHR 0x22] @ ''Chicago, '' @ [CHR 0x22, CHR 0x22] @ ''Loop'' @ [CHR 0x22, CHR 0x22] @
       [CHR 0x22]"
proof -
  have ne: "[recLoop] \<noteq> []" by simp
  have "parse_csv (csvString [recLoop]) =
        Some ([''name'', ''location'', ''technology'', ''email'', ''phone''] #
              map (\<lambda>r. map (\<lambda>f. csvText (obj_get r f))
                           [''name'', ''location'', ''technology'', ''email'', ''phone''])
                [recLoop])"
    using downloadCSV_roundtrip [OF ne] by blast
  moreover have "csvValue recLoop ''location'' =
       [CHR 0x22] @ ''Chicago, '' @ [CHR 0x22, CHR 0x22] @ ''Loop'' @ [CHR 0x22, CHR 0x22] @
       [CHR 0x22]"
    by (simp add: csvValue_def recLoop_def obj_get_def js_or_def replaceAll_def)
  ultimately show ?thesis
    by (simp add: recLoop_def csvText_def obj_get_def js_or_def)
qed

section \<open>Falsy fields on screen and in the export (C10)\<close>

lemma escapeHtml_Nil [simp]: "escapeHtml [] = []"
  by (simp add: escapeHtml_def replaceAll_def)

lemma escapeHtml_dash [simp]: "escapeHtml ''-'' = ''-''"
  by (simp add: escapeHtml_def replaceAll_def)

lemma tableRows_renderTable:
  "tableRows (renderTable data st) = map (\<lambda>row. map (renderCell row) fields) data"
  by (simp add: renderTable_def fields_def)

lemma parse_csv_csvValue: "parse_csv (csvValue row f) = Some [[csvText (obj_get row f)]]"
  using csv_read_value [of "[]" "[]" row f "[]"] by (simp add: parse_csv_def)

text \<open>
  C10. For every record and every field: the table cell is the HTML-escaped text of
  \<^verbatim>\<open>row.f || '-'\<close> and the CSV value reads back as the text of \<^verbatim>\<open>row.f || ''\<close>. When
  the field is falsy (missing, null, empty, also 0 and false) the cell is the dash and the
  exported value is empty; when it is not, the cell is the escaped text of the very value
  the export writes. So the cell differs from the escaped exported text exactly on the
  falsy fields.
\<close>

theorem falsy_cell_dash_export_empty:
  fixes row :: jsobj and f :: string
  defines "v \<equiv> obj_get row f"
  shows "tableRows (renderTable data st) = map (\<lambda>row. map (renderCell row) fields) data
    \<and> parse_csv (csvValue row f) = Some [[csvText v]]
    \<and> (if truthy v
        then renderCell row f = escapeHtml (js_String v) \<and> csvText v = js_String v
        else renderCell row f = ''-'' \<and> csvText v = [] \<and> csvValue row f = [CHR 0x22, CHR 0x22])
    \<and> (renderCell row f \<noteq> escapeHtml (csvText v) \<longleftrightarrow> \<not> truthy v)"
proof -
  have a: "parse_csv (csvValue row f) = Some [[csvText v]]"
    unfolding v_def by (rule parse_csv_csvValue)
  have b: "if truthy v
        then renderCell row f = escapeHtml (js_String v) \<and> csvText v = js_String v
        else renderCell row f = ''-'' \<and> csvText v = [] \<and> csvValue row f = [CHR 0x22, CHR 0x22]"
    unfolding v_def
    by (simp add: renderCell_def csvText_def csvValue_def js_or_def replaceAll_def)
  have c: "renderCell row f \<noteq> escapeHtml (csvText v) \<longleftrightarrow> \<not> truthy v"
    unfolding v_def by (simp add: renderCell_def csvText_def js_or_def)
  from a b c show ?thesis
    by (simp only: tableRows_renderTable simp_thms)
qed


section \<open>The mapper is total (C8)\<close>

lemma obj_get_cases: "obj_get row k = JUndefined \<or> obj_get row k \<in> snd ` set row"
  by (auto simp: obj_get_def split: option.splits dest!: map_of_SomeD intro: rev_image_eqI)

lemma findVal_cases:
  "findVal row t = JStr [] \<or> (truthy (findVal row t) \<and> findVal row t \<in> snd ` set row)"
  using obj_get_cases [of row "case find (\<lambda>k. str_includes (toLowerCase k) t) (keys row) of
                                  None \<Rightarrow> ''undefined'' | Some k \<Rightarrow> k"]
  by (auto simp: findVal_def js_or_def Let_def)

lemma js_or_cases:
  assumes "a = JStr [] \<or> (truthy a \<and> a \<in> S)" and "b = JStr [] \<or> (truthy b \<and> b \<in> S)"
  shows "js_or a b = JStr [] \<or> (truthy (js_or a b) \<and> js_or a b \<in> S)"
  using assms by (auto simp: js_or_def)

lemma findVal_no_header:
  assumes "\<forall>k\<in>set (keys row). \<not> str_includes (toLowerCase k) t"
    and "''undefined'' \<notin> set (keys row)"
  shows "findVal row t = JStr []"
proof -
  from assms(1) have "find (\<lambda>k. str_includes (toLowerCase k) t) (keys row) = None"
    by (simp add: find_None_iff)
  moreover from assms(2) have "map_of row ''undefined'' = None"
    by (simp add: map_of_eq_None_iff keys_def)
  ultimately show ?thesis
    by (simp add: findVal_def obj_get_def js_or_def)
qed

lemma mapRow_get:
  "obj_get (mapRow row) ''name'' = findVal row ''name''"
  "obj_get (mapRow row) ''location'' = js_or (findVal row ''location'') (findVal row ''city'')"
  "obj_get (mapRow row) ''technology'' = js_or (findVal row ''tech'') (findVal row ''skill'')"
  "obj_get (mapRow row) ''email'' = js_or (findVal row ''email'') (findVal row ''mail'')"
  "obj_get (mapRow row) ''phone'' =
     js_or (js_or (findVal row ''phone'') (findVal row ''mobile'')) (findVal row ''contact'')"
  by (simp_all add: mapRow_def obj_get_def)

lemma mapRow_field_cases:
  assumes "f \<in> set fields"
  shows "obj_get (mapRow row) f = JStr []
         \<or> (truthy (obj_get (mapRow row) f) \<and> obj_get (mapRow row) f \<in> snd ` set row)"
proof -
  note fv = findVal_cases [of row]
  from assms consider "f = ''name''" | "f = ''location''" | "f = ''technology''"
    | "f = ''email''" | "f = ''phone''"
    by (auto simp: fields_def)
  then show ?thesis
  proof cases
    case 1
    then show ?thesis using fv by (simp only: mapRow_get)
  next
    case 2
    then show ?thesis using js_or_cases [OF fv fv] by (simp only: mapRow_get)
  next
    case 3
    then show ?thesis using js_or_cases [OF fv fv] by (simp only: mapRow_get)
  next
    case 4
    then show ?thesis using js_or_cases [OF fv fv] by (simp only: mapRow_get)
  next
    case 5
    then show ?thesis using js_or_cases [OF js_or_cases [OF fv fv] fv] by (simp only: mapRow_get)
  qed
qed

lemma mapRow_field_empty:
  assumes "f \<in> set fields"
    and "''undefined'' \<notin> set (keys row)"
    and "\<forall>k\<in>set (keys row). \<forall>t\<in>set (fieldTokens f). \<not> str_includes (toLowerCase k) t"
  shows "obj_get (mapRow row) f = JStr []"
proof -
  have nf: "findVal row t = JStr []" if "t \<in> set (fieldTokens f)" for t
    using findVal_no_header [of row t] assms(2,3) that by blast
  from assms(1) consider "f = ''name''" | "f = ''location''" | "f = ''technology''"
    | "f = ''email''" | "f = ''phone''"
    by (auto simp: fields_def)
  then show ?thesis
  proof cases
    case 1
    then show ?thesis using nf [of "''name''"] by (simp add: mapRow_get fieldTokens_def)
  next
    case 2
    then show ?thesis using nf [of "''location''"] nf [of "''city''"]
      by (simp add: mapRow_get fieldTokens_def js_or_def)
  next
    case 3
    then show ?thesis using nf [of "''tech''"] nf [of "''skill''"]
      by (simp add: mapRow_get fieldTokens_def js_or_def)
  next
    case 4
    then show ?thesis using nf [of "''email''"] nf [of "''mail''"]
      by (simp add: mapRow_get fieldTokens_def js_or_def)
  next
    case 5
    then show ?thesis using nf [of "''phone''"] nf [of "''mobile''"] nf [of "''contact''"]
      by (simp add: mapRow_get fieldTokens_def js_or_def)
  qed
qed

text \<open>
  C8, as the claim states it, fails: a field need not be a string (a phone column decoded
  as the number 5551234 is passed on as that number), and a field with no matching header
  need not be empty (with no header containing name, \<^verbatim>\<open>row[undefined]\<close> reads the column
  whose header is spelled undefined).
\<close>

theorem mapRow_field_not_string:
  "obj_get (mapRow rowPhone) ''phone'' = JNum 5551234
   \<and> \<not> isString (obj_get (mapRow rowPhone) ''phone'')
   \<and> find (\<lambda>k. str_includes (toLowerCase k) ''name'') (keys rowUndef) = None
   \<and> obj_get (mapRow rowUndef) ''name'' = JStr ''x''"
proof -
  have a: "findVal rowPhone ''phone'' = JNum 5551234"
    by (simp add: findVal_def rowPhone_def str_defs)
  have b: "find (\<lambda>k. str_includes (toLowerCase k) ''name'') (keys rowUndef) = None"
    by (simp add: rowUndef_def str_defs)
  have c: "findVal rowUndef ''name'' = JStr ''x''"
    by (simp add: findVal_def rowUndef_def str_defs)
  show ?thesis
    by (simp add: mapRow_get a b c js_or_def isString_def)
qed

text \<open>
  C8, amended. \<open>mapRow\<close> is a total function of the row, with no error among its results
  (nothing in script.js 527-541 throws on an object with string keys). For every row it
  yields a record with exactly the keys name, location, technology, email, phone. Each
  of the five fields is defined, never undefined or null: it is the empty string, or a
  truthy cell of the row passed on as decoded (a non-empty string, a non-zero number,
  true). When no header contains a token of the field and no header is spelled
  undefined, the field is the empty string.
\<close>

theorem mapRow_total_defined:
  "keys (mapRow row) = [''name'', ''location'', ''technology'', ''email'', ''phone'']
   \<and> (\<forall>f\<in>set fields.
         obj_get (mapRow row) f \<noteq> JUndefined \<and> obj_get (mapRow row) f \<noteq> JNull
         \<and> (obj_get (mapRow row) f = JStr []
            \<or> (truthy (obj_get (mapRow row) f) \<and> obj_get (mapRow row) f \<in> snd ` set row)))
   \<and> (\<forall>f\<in>set fields.
         ''undefined'' \<notin> set (keys row)
         \<and> (\<forall>k\<in>set (keys row). \<forall>t\<in>set (fieldTokens f). \<not> str_includes (toLowerCase k) t)
         \<longrightarrow> obj_get (mapRow row) f = JStr [])"
proof -
  have 1: "keys (mapRow row) = [''name'', ''location'', ''technology'', ''email'', ''phone'']"
    by (simp add: mapRow_def keys_def)
  have 2: "obj_get (mapRow row) f \<noteq> JUndefined \<and> obj_get (mapRow row) f \<noteq> JNull
         \<and> (obj_get (mapRow row) f = JStr []
            \<or> (truthy (obj_get (mapRow row) f) \<and> obj_get (mapRow row) f \<in> snd ` set row))"
    if "f \<in> set fields" for f
    using mapRow_field_cases [OF that, of row] by auto
  from 1 2 mapRow_field_empty show ?thesis by blast
qed

theorem mapRow_total_defined_witness:
  "keys (mapRow rowPhone) = [''name'', ''location'', ''technology'', ''email'', ''phone'']
   \<and> obj_get (mapRow rowPhone) ''email'' = JStr []
   \<and> obj_get (mapRow rowPhone) ''phone'' \<noteq> JUndefined
   \<and> obj_get (mapRow rowPhone) ''phone'' \<noteq> JNull"
proof -
  have f: "''email'' \<in> set fields" "''phone'' \<in> set fields"
    by (simp_all add: fields_def)
  have h: "''undefined'' \<notin> set (keys rowPhone)
         \<and> (\<forall>k\<in>set (keys rowPhone). \<forall>t\<in>set (fieldTokens ''email'').
               \<not> str_includes (toLowerCase k) t)"
    by (simp add: rowPhone_def fieldTokens_def str_defs)
  from mapRow_total_defined [of rowPhone] f h show ?thesis by blast
qed


section \<open>What the exports read (C3)\<close>

lemma sameFields_get:
  assumes "sameFields r r'"
  shows "obj_get r ''name'' = obj_get r' ''name''"
    and "obj_get r ''location'' = obj_get r' ''location''"
    and "obj_get r ''technology'' = obj_get r' ''technology''"
    and "obj_get r ''email'' = obj_get r' ''email''"
    and "obj_get r ''phone'' = obj_get r' ''phone''"
  using assms by (simp_all add: sameFields_def fields_def)

lemma sameFields_renderRow:
  assumes "sameFields r r'"
  shows "[renderCell r ''name'', renderCell r ''location'', renderCell r ''technology'',
          renderCell r ''email'', renderCell r ''phone''] =
         [renderCell r' ''name'', renderCell r' ''location'', renderCell r' ''technology'',
          renderCell r' ''email'', renderCell r' ''phone'']"
  using sameFields_get [OF assms] by (simp add: renderCell_def)

lemma sameFields_csvRow:
  assumes "sameFields r r'"
  shows "map (csvValue r) fields = map (csvValue r') fields"
  using sameFields_get [OF assms] by (simp add: csvValue_def fields_def)

lemma sameFields_pdfRow:
  assumes "sameFields r r'"
  shows "[obj_get r ''name'', obj_get r ''location'', obj_get r ''technology'',
          obj_get r ''email'', obj_get r ''phone''] =
         [obj_get r' ''name'', obj_get r' ''location'', obj_get r' ''technology'',
          obj_get r' ''email'', obj_get r' ''phone'']"
  using sameFields_get [OF assms] by simp

lemma sameFields_tableRows:
  assumes "list_all2 sameFields data data'"
  shows "tableRows (renderTable data st) = tableRows (renderTable data' st)"
  using assms
  by (induction rule: list_all2_induct) (simp_all add: renderTable_def sameFields_renderRow)

lemma sameFields_csvString:
  assumes "list_all2 sameFields data data'"
  shows "csvString data = csvString data'"
proof -
  from assms have "map (\<lambda>row. join '','' (map (csvValue row) fields)) data =
                   map (\<lambda>row. join '','' (map (csvValue row) fields)) data'"
    by (induction rule: list_all2_induct) (simp_all add: sameFields_csvRow)
  then show ?thesis by (simp add: csvString_def)
qed

lemma sameFields_pdfBody:
  assumes "list_all2 sameFields data data'"
  shows "map (\<lambda>row. [obj_get row ''name'', obj_get row ''location'', obj_get row ''technology'',
                      obj_get row ''email'', obj_get row ''phone'']) data =
         map (\<lambda>row. [obj_get row ''name'', obj_get row ''location'', obj_get row ''technology'',
                      obj_get row ''email'', obj_get row ''phone'']) data'"
  using assms by (induction rule: list_all2_induct) (simp_all add: sameFields_pdfRow)

lemma sameFields_Nil:
  assumes "list_all2 sameFields data data'"
  shows "data = [] \<longleftrightarrow> data' = []"
  using assms by (cases data; cases data') simp_all

text \<open>
  C3, as the claim states it, fails for the workbook export: it hands the records whole
  to \<^verbatim>\<open>XLSX.utils.json_to_sheet\<close>, so two result sets that agree on the five rendered
  fields, and render alike, give different workbooks when they differ in a sixth field.
  And the CSV export substitutes the empty string for a value that is there: the phone
  number 0.
\<close>

theorem workbook_export_reads_other_fields:
  "list_all2 sameFields [recExtraA] [recExtraB]
   \<and> tableRows (renderTable [recExtraA] st0) = tableRows (renderTable [recExtraB] st0)
   \<and> downloads (downloadExcel envB (renderTable [recExtraA] st0)) =
       [XlsxBook ''leads_export_2026-01-15.xlsx'' ''Leads'' [recExtraA]]
   \<and> downloads (downloadExcel envB (renderTable [recExtraA] st0)) \<noteq>
       downloads (downloadExcel envB (renderTable [recExtraB] st0))
   \<and> obj_get recZero ''phone'' = JNum 0
   \<and> csvValue recZero ''phone'' = [CHR 0x22, CHR 0x22]"
proof -
  have s: "list_all2 sameFields [recExtraA] [recExtraB]"
    by (simp add: sameFields_def fields_def recExtraA_def recExtraB_def obj_get_def)
  have x: "downloads (downloadExcel envB (renderTable [r] st0)) =
           [XlsxBook ''leads_export_2026-01-15.xlsx'' ''Leads'' [r]]" for r
    by (simp add: downloadExcel_def renderTable_def showNotification_def st0_def envB_def)
  have d: "recExtraA \<noteq> recExtraB"
    by (simp add: recExtraA_def recExtraB_def)
  have z: "obj_get recZero ''phone'' = JNum 0"
    by (simp add: recZero_def obj_get_def)
  have c: "csvValue recZero ''phone'' = [CHR 0x22, CHR 0x22]"
    by (simp add: csvValue_def z js_or_def replaceAll_def)
  from s sameFields_tableRows [OF s] x d z c show ?thesis by simp
qed

text \<open>
  C3, amended. After a search has rendered \<open>data\<close>, the exports work on that same list.
  The table, the CSV export and the PDF export read the five fields name, location,
  technology, email, phone of each record and nothing else of it: result sets that agree
  on the five fields give the same table, the same CSV text and the same PDF body. The
  workbook export hands the records themselves, with every field they have, to the sheet
  library. The CSV export writes the quoted text of a value, and the empty string for a
  falsy one (missing, null, empty, 0, false); the PDF export passes the five values on as
  they are.
\<close>

theorem exports_read_five_fields:
  assumes "list_all2 sameFields data data'"
  shows "currentData (renderTable data st) = data
    \<and> tableRows (renderTable data st) = tableRows (renderTable data' st)
    \<and> downloads (downloadCSV env (renderTable data st)) =
        downloads (downloadCSV env (renderTable data' st))
    \<and> downloads (downloadPDF env (renderTable data st)) =
        downloads (downloadPDF env (renderTable data' st))
    \<and> downloads (downloadExcel env (renderTable data st)) =
        (if data = [] then downloads st
         else downloads st @ [XlsxBook (''leads_export_'' @ today env @ ''.xlsx'') ''Leads'' data])
    \<and> downloads (downloadPDF env (renderTable data st)) =
        (if data = [] then downloads st
         else downloads st @
              [PdfDoc (''leads_export_'' @ today env @ ''.pdf'') ''Leads Search Results''
                 [''Name'', ''Location'', ''Technology'', ''Email'', ''Phone'']
                 (map (\<lambda>row. map (obj_get row) fields) data)])
    \<and> (\<forall>row f. csvValue row f =
          [CHR 0x22] @
          replaceAll (CHR 0x22) [CHR 0x22, CHR 0x22]
            (if truthy (obj_get row f) then js_String (obj_get row f) else []) @
          [CHR 0x22])"
proof -
  note n = sameFields_Nil [OF assms]
  have 1: "currentData (renderTable data st) = data"
    by (simp add: renderTable_def)
  have 2: "downloads (downloadCSV env (renderTable data st)) =
        downloads (downloadCSV env (renderTable data' st))"
    using n sameFields_csvString [OF assms]
    by (simp add: downloadCSV_def renderTable_def showNotification_def)
  have 3: "downloads (downloadPDF env (renderTable data st)) =
        downloads (downloadPDF env (renderTable data' st))"
    using n sameFields_pdfBody [OF assms]
    by (simp add: downloadPDF_def renderTable_def showNotification_def)
  have 4: "downloads (downloadExcel env (renderTable data st)) =
        (if data = [] then downloads st
         else downloads st @ [XlsxBook (''leads_export_'' @ today env @ ''.xlsx'') ''Leads'' data])"
    by (simp add: downloadExcel_def renderTable_def showNotification_def)
  have 5: "downloads (downloadPDF env (renderTable data st)) =
        (if data = [] then downloads st
         else downloads st @
              [PdfDoc (''leads_export_'' @ today env @ ''.pdf'') ''Leads Search Results''
                 [''Name'', ''Location'', ''Technology'', ''Email'', ''Phone'']
                 (map (\<lambda>row. map (obj_get row) fields) data)])"
    by (simp add: downloadPDF_def renderTable_def showNotification_def fields_def)
  have 6: "\<forall>row f. csvValue row f =
          [CHR 0x22] @
          replaceAll (CHR 0x22) [CHR 0x22, CHR 0x22]
            (if truthy (obj_get row f) then js_String (obj_get row f) else []) @
          [CHR 0x22]"
    by (simp add: csvValue_def js_or_def)
  from 1 sameFields_tableRows [OF assms] 2 3 4 5 6 show ?thesis by blast
qed

theorem exports_read_five_fields_witness:
  "tableRows (renderTable [recExtraA] st0) = tableRows (renderTable [recExtraB] st0)
   \<and> downloads (downloadCSV envB (renderTable [recExtraA] st0)) =
       downloads (downloadCSV envB (renderTable [recExtraB] st0))
   \<and> downloads (downloadPDF envB (renderTable [recExtraA] st0)) =
       downloads (downloadPDF envB (renderTable [recExtraB] st0))"
proof -
  have s: "list_all2 sameFields [recExtraA] [recExtraB]"
    by (simp add: sameFields_def fields_def recExtraA_def recExtraB_def obj_get_def)
  from exports_read_five_fields [OF s] show ?thesis by blast
qed


section \<open>Decoding the attachment (C6)\<close>

lemma js_split_no_sep: "sep \<notin> set s \<Longrightarrow> js_split sep s = [s]"
  by (induction s) auto

lemma js_split_hd: "\<exists>ws. js_split sep s = takeWhile (\<lambda>c. c \<noteq> sep) s # ws"
  by (induction s) auto

lemma js_split_at_sep:
  "sep \<notin> set pre \<Longrightarrow> js_split sep (pre @ sep # rest) = pre # js_split sep rest"
  by (induction pre) auto

lemma cleanBase64_no_comma: "CHR '','' \<notin> set d \<Longrightarrow> cleanBase64 d = d"
  by (simp add: cleanBase64_def js_split_no_sep)

lemma cleanBase64_comma:
  assumes "CHR '','' \<notin> set pre"
  shows "cleanBase64 (pre @ CHR '','' # rest) =
           (if takeWhile (\<lambda>c. c \<noteq> CHR '','') rest = [] then pre @ CHR '','' # rest
            else takeWhile (\<lambda>c. c \<noteq> CHR '','') rest)"
proof -
  obtain ws where "js_split CHR '','' rest = takeWhile (\<lambda>c. c \<noteq> CHR '','') rest # ws"
    using js_split_hd by blast
  then show ?thesis
    using assms by (simp add: cleanBase64_def js_split_at_sep str_or_def)
qed

lemma handleSearch_local_error:
  fixes env :: "'ws env" and a :: attachment
  assumes att: "(\<exists>f fs. files env = f # fs \<and> fdataurl f = Inr (fileData a)
                    \<and> fname f = fileName a \<and> ftype f = fileMimeType a)
              \<or> (files env = [] \<and> cachedFilePayload st = Some a)"
    and dat: "fileData a \<noteq> []"
    and sheet: "isExcelOrCsv a"
    and err: "processLocalFile (lib env) (fileData a)
                \<lparr>name = formName env, location = formLocation env,
                   technology = formTechnology env\<rparr> = Inl e"
  shows "currentData (handleSearch env st) = []
       \<and> tableRows (handleSearch env st) = tableRows st
       \<and> resultsHidden (handleSearch env st)
       \<and> noDataHidden (handleSearch env st)
       \<and> loadingHidden (handleSearch env st)
       \<and> \<not> searchBtnDisabled (handleSearch env st)
       \<and> last (toasts (handleSearch env st)) = (''An error occurred while searching.'', ''error'')"
proof -
  from att show ?thesis
  proof
    assume "\<exists>f fs. files env = f # fs \<and> fdataurl f = Inr (fileData a)
                    \<and> fname f = fileName a \<and> ftype f = fileMimeType a"
    then obtain f fs where f: "files env = f # fs" "fdataurl f = Inr (fileData a)"
      and fa: "fname f = fileName a" "ftype f = fileMimeType a" by blast
    from fa have a_eq: "\<lparr>fileData = fileData a, fileName = fileName a, fileMimeType = fileMimeType a\<rparr> = a"
      by simp
    show ?thesis
      using f fa dat sheet err
      by (simp add: handleSearch_def hasFileData_def ui_defs Let_def a_eq)
  next
    assume "files env = [] \<and> cachedFilePayload st = Some a"
    then show ?thesis
      using dat sheet err
      by (simp add: handleSearch_def hasFileData_def ui_defs Let_def)
  qed
qed

lemma cleanBase64_strips_prefix:
  assumes "CHR '','' \<notin> set pre" and "CHR '','' \<notin> set pay" and "pay \<noteq> []"
  shows "cleanBase64 (pre @ CHR '','' # pay) = pay"
proof -
  from assms(2) have tw: "takeWhile (\<lambda>c. c \<noteq> CHR '','') pay = pay"
    by (auto simp: takeWhile_eq_all_conv)
  show ?thesis
    using cleanBase64_comma [OF assms(1), of pay] assms(3) unfolding tw by simp
qed

text \<open>
  C6. The decoder is to strip the prefix of the data URL, up to the first comma, before
  decoding (the comment at script.js 480-482 says so). On the data URL of an empty CSV
  file, \<^verbatim>\<open>data:text/csv;base64,\<close>, it does not: nothing follows the comma,
  \<^verbatim>\<open>split(',')[1]\<close> is the empty string, which is falsy, and \<^verbatim>\<open>|| base64Data\<close> puts the
  whole text back, so that \<^verbatim>\<open>XLSX.read\<close> is handed the payload with its prefix. On the
  data URL of scenario B, whose payload is not empty, the prefix is stripped.
\<close>

theorem cleanBase64_keeps_prefix_of_empty_payload:
  "cleanBase64 ''data:text/csv;base64,'' = ''data:text/csv;base64,''
   \<and> cleanBase64 dataUrlB = base64B
   \<and> processLocalFile xl ''data:text/csv;base64,'' crit =
       (case xlsx_read xl ''data:text/csv;base64,'' of
          Inl e \<Rightarrow> Inl e
        | Inr wb \<Rightarrow>
            (case sheet_to_json xl
                    (map_of (Sheets wb) (case SheetNames wb of [] \<Rightarrow> ''undefined'' | n # _ \<Rightarrow> n))
                    (JStr []) of
               Inl e \<Rightarrow> Inl e
             | Inr jsonData \<Rightarrow> Inr (map mapRow (filter (rowMatches crit) jsonData))))"
proof -
  have 1: "cleanBase64 ''data:text/csv;base64,'' = ''data:text/csv;base64,''"
    by (simp add: cleanBase64_def str_or_def)
  show ?thesis
    unfolding processLocalFile_def 1 Let_def
    by (simp add: cleanBase64_dataUrlB)
qed

end
